theory Spec2Isabelle
  imports Complex_Main "HOL-Library.Multiset" "HOL-Library.Log_Nat" "HOL-Library.Word"
begin

section \<open>Data model (types.ts)\<close>

text \<open>
  A JavaScript number is modelled as a real: the pricing, discount and interest
  formulas are read over exact numbers, and where a result turns on the rounding of
  doubles (the invoice counter, the order of the additions of a balance) the addition
  is \<open>double_add\<close> below. A \<open>Date\<close> is its \<open>getTime()\<close> value, the milliseconds since the
  epoch, as an integer. The description of an item, the one string whose characters
  the code inspects, is the list of its UTF-16 code units; the other strings are only
  compared or parsed. Record fields keep the names of \<open>types.ts\<close>; the fields \<open>id\<close>,
  \<open>name\<close>, \<open>phone\<close>, \<open>description\<close> and \<open>type\<close>, which several interfaces share, carry a
  prefix naming their interface.
\<close>

type_synonym utf16 = "16 word list"

datatype MetalType = GOLD | SILVER

datatype MakingChargeType = PER_GRAM | FLAT

record InvoiceItem =
  item_id :: string
  description :: utf16
  metal :: MetalType
  grossWeight :: real
  netWeight :: real
  makingChargeType :: MakingChargeType
  makingChargeValue :: real
  applyGst :: bool

record Rates =
  rate_GOLD :: real
  rate_SILVER :: real

record Customer =
  name :: string
  phone :: string

datatype PartyType = CUSTOMER | SUPPLIER

record Party =
  party_id :: string
  party_name :: string
  party_phone :: string
  party_type :: PartyType

datatype TransactionType = CREDIT | DEBIT

record KhataTransaction =
  txn_id :: string
  date :: int
  partyId :: string
  txn_description :: string
  txn_type :: TransactionType
  amount :: real

datatype InterestRatePeriod = MONTHLY | ANNUAL

datatype InterestType = SIMPLE | COMPOUND

record ByajLoan =
  loan_id :: string
  borrower_name :: string
  borrower_phone :: string
  borrower_address :: string
  principalAmount :: real
  interestRate :: real
  interestRatePeriod :: InterestRatePeriod
  interestType :: InterestType
  loanDate :: int

section \<open>Addition of doubles\<close>

text \<open>
  IEEE 754 binary64 in its normal range (no overflow, no subnormal results, no \<open>NaN\<close>):
  a real is rounded to the nearest number with a significand of 53 bits, a tie going
  to the even significand. \<open>binade a\<close> is the exponent of \<open>a > 0\<close>, the integer \<open>e\<close> with
  \<open>2 ^ e \<le> a < 2 ^ (e + 1)\<close>; the significand is then an integer from \<open>2 ^ 52\<close> up to
  \<open>2 ^ 53\<close>. The sum of two doubles is the exact sum, rounded.
\<close>

definition binade :: "real \<Rightarrow> int" where
  "binade a = (if 1 \<le> a then bitlen \<lfloor>a\<rfloor> - 1 else - bitlen (\<lceil>1 / a\<rceil> - 1))"

definition round_double :: "real \<Rightarrow> real" where
  "round_double x =
     (if x = 0 then 0
      else let a = \<bar>x\<bar>;
               e = binade a;
               q = a * 2 powi (52 - e);
               n = \<lfloor>q\<rfloor>;
               m = (if q - of_int n < 1 / 2 \<or> (q - of_int n = 1 / 2 \<and> even n)
                    then n else n + 1)
           in sgn x * of_int m * 2 powi (e - 52))"

definition double_add :: "real \<Rightarrow> real \<Rightarrow> real" where
  "double_add x y = round_double (x + y)"

section \<open>Invoice computation (InvoicePreview)\<close>

text \<open>\<open>rates[item.metal]\<close>: the rate table indexed by the metal.\<close>

fun rate_of :: "Rates \<Rightarrow> MetalType \<Rightarrow> real" where
  "rate_of rates GOLD = rate_GOLD rates"
| "rate_of rates SILVER = rate_SILVER rates"

text \<open>One element of \<open>calculations\<close>: the item extended with its derived amounts.\<close>

record Calculation =
  item :: InvoiceItem
  rate :: real
  metalValue :: real
  makingCharges :: real
  valueBeforeGst :: real
  itemGstAmount :: real
  totalValue :: real

definition calc_item :: "Rates \<Rightarrow> real \<Rightarrow> InvoiceItem \<Rightarrow> Calculation" where
  "calc_item rates gst it =
     (let r = rate_of rates (metal it);
          mv = netWeight it * r;
          mc = (if makingChargeType it = PER_GRAM
                then makingChargeValue it * grossWeight it
                else makingChargeValue it);
          vbg = mv + mc;
          iga = (if applyGst it then vbg * (gst / 100) else 0);
          tv = vbg + iga
      in \<lparr> item = it, rate = r, metalValue = mv, makingCharges = mc,
           valueBeforeGst = vbg, itemGstAmount = iga, totalValue = tv \<rparr>)"

definition calculations :: "Rates \<Rightarrow> real \<Rightarrow> InvoiceItem list \<Rightarrow> Calculation list" where
  "calculations rates gst its = map (calc_item rates gst) its"

text \<open>\<open>reduce\<close> runs left to right from the initial accumulator \<open>0\<close>.\<close>

definition subTotal :: "Rates \<Rightarrow> real \<Rightarrow> InvoiceItem list \<Rightarrow> real" where
  "subTotal rates gst its =
     foldl (\<lambda>acc c. acc + valueBeforeGst c) 0 (calculations rates gst its)"

definition gstAmount :: "Rates \<Rightarrow> real \<Rightarrow> InvoiceItem list \<Rightarrow> real" where
  "gstAmount rates gst its =
     foldl (\<lambda>acc c. acc + itemGstAmount c) 0 (calculations rates gst its)"

definition totalBeforeDiscount :: "Rates \<Rightarrow> real \<Rightarrow> InvoiceItem list \<Rightarrow> real" where
  "totalBeforeDiscount rates gst its =
     subTotal rates gst its + gstAmount rates gst its"


subsection \<open>Discount\<close>

datatype DiscountType = PERCENT | FIXED

text \<open>
  \<open>parseFloat\<close> is JavaScript's built-in; the model takes it as a parameter whose result
  is \<open>None\<close> for \<open>NaN\<close>. \<open>parseFloat(discountValue) || 0\<close> replaces \<open>NaN\<close> and \<open>0\<close> by \<open>0\<close>.
\<close>

definition numericDiscountValue :: "(string \<Rightarrow> real option) \<Rightarrow> string \<Rightarrow> real" where
  "numericDiscountValue parseFloat dv =
     (case parseFloat dv of None \<Rightarrow> 0 | Some v \<Rightarrow> if v = 0 then 0 else v)"

text \<open>
  \<open>discountAmount\<close> from the total before discount, the discount type and the numeric
  discount value: the amount is set only for a positive value, then capped at the total.
\<close>

definition discountAmount :: "real \<Rightarrow> DiscountType \<Rightarrow> real \<Rightarrow> real" where
  "discountAmount tbd dt ndv =
     (let d0 = (if ndv > 0
                then (if dt = PERCENT then tbd * (ndv / 100) else ndv)
                else 0)
      in if d0 > tbd then tbd else d0)"

definition grandTotal ::
  "Rates \<Rightarrow> real \<Rightarrow> InvoiceItem list \<Rightarrow> DiscountType \<Rightarrow> real \<Rightarrow> real" where
  "grandTotal rates gst its dt ndv =
     totalBeforeDiscount rates gst its
       - discountAmount (totalBeforeDiscount rates gst its) dt ndv"

section \<open>Line-item creation (BillingForm.handleSubmit)\<close>

text \<open>
  \<open>String.prototype.trim\<close> removes white space and line terminators at both ends. The
  white space of ECMAScript is tab, vertical tab, form feed, the byte order mark
  \<open>U+FEFF\<close> and the space separators of Unicode (\<open>U+0020\<close>, \<open>U+00A0\<close>, \<open>U+1680\<close>,
  \<open>U+2000\<close> to \<open>U+200A\<close>, \<open>U+202F\<close>, \<open>U+205F\<close>, \<open>U+3000\<close>); the line terminators are
  line feed, carriage return, \<open>U+2028\<close> and \<open>U+2029\<close>. All of them are single code
  units.
\<close>

definition js_whitespace :: "16 word \<Rightarrow> bool" where
  "js_whitespace c =
     (c = 0x0009 \<or> c = 0x000A \<or> c = 0x000B \<or> c = 0x000C \<or> c = 0x000D
      \<or> c = 0x0020 \<or> c = 0x00A0 \<or> c = 0x1680 \<or> (0x2000 \<le> c \<and> c \<le> 0x200A)
      \<or> c = 0x2028 \<or> c = 0x2029 \<or> c = 0x202F \<or> c = 0x205F \<or> c = 0x3000
      \<or> c = 0xFEFF)"

definition trim :: "utf16 \<Rightarrow> utf16" where
  "trim s = rev (dropWhile js_whitespace (rev (dropWhile js_whitespace s)))"

text \<open>
  Comparisons of JavaScript numbers, \<open>None\<close> being \<open>NaN\<close>: every comparison with
  \<open>NaN\<close> is false.
\<close>

definition isNaN :: "real option \<Rightarrow> bool" where
  "isNaN x = (x = None)"

fun js_le :: "real option \<Rightarrow> real option \<Rightarrow> bool" where
  "js_le (Some a) (Some b) = (a \<le> b)"
| "js_le _ _ = False"

fun js_lt :: "real option \<Rightarrow> real option \<Rightarrow> bool" where
  "js_lt (Some a) (Some b) = (a < b)"
| "js_lt _ _ = False"

fun js_gt :: "real option \<Rightarrow> real option \<Rightarrow> bool" where
  "js_gt (Some a) (Some b) = (a > b)"
| "js_gt _ _ = False"

text \<open>The number stored in the new item; \<open>handleSubmit\<close> reaches it only after the
  \<open>isNaN\<close> tests have failed.\<close>

fun num_value :: "real option \<Rightarrow> real" where
  "num_value (Some a) = a"
| "num_value None = 0"

text \<open>The two messages of the form, by their translation keys.\<close>

datatype FormError = please_fill_valid_values | net_weight_error

record BillingFormState =
  f_description :: utf16
  f_metal :: MetalType
  f_grossWeight :: string
  f_netWeight :: string
  f_makingChargeType :: MakingChargeType
  f_makingChargeValue :: string
  f_applyGst :: bool
  f_error :: "FormError option"

text \<open>\<open>App.handleAddItem\<close>, the \<open>onAddItem\<close> callback of the form.\<close>

definition handleAddItem :: "InvoiceItem list \<Rightarrow> InvoiceItem \<Rightarrow> InvoiceItem list" where
  "handleAddItem prevItems it = prevItems @ [it]"

definition handleRemoveItem :: "InvoiceItem list \<Rightarrow> string \<Rightarrow> InvoiceItem list" where
  "handleRemoveItem prevItems i = filter (\<lambda>it. item_id it \<noteq> i) prevItems"

text \<open>
  \<open>handleSubmit\<close> on the form state and the item list of the session; \<open>now\<close> is
  \<open>new Date().toISOString()\<close>. It returns the new form state and the new item list.
\<close>

definition handleSubmit ::
  "(string \<Rightarrow> real option) \<Rightarrow> string \<Rightarrow> BillingFormState \<Rightarrow> InvoiceItem list
     \<Rightarrow> BillingFormState \<times> InvoiceItem list" where
  "handleSubmit parseFloat now f its =
     (let gw = parseFloat (f_grossWeight f);
          nw = parseFloat (f_netWeight f);
          mcv = parseFloat (f_makingChargeValue f)
      in if trim (f_description f) = [] \<or> isNaN gw \<or> isNaN nw \<or> isNaN mcv
            \<or> js_le gw (Some 0) \<or> js_le nw (Some 0) \<or> js_lt mcv (Some 0)
         then (f\<lparr> f_error := Some please_fill_valid_values \<rparr>, its)
         else if js_gt nw gw
         then (f\<lparr> f_error := Some net_weight_error \<rparr>, its)
         else (f\<lparr> f_error := None, f_description := [], f_grossWeight := [],
                   f_netWeight := [], f_makingChargeValue := [], f_applyGst := True \<rparr>,
               handleAddItem its
                 \<lparr> item_id = now, description = f_description f, metal = f_metal f,
                   grossWeight = num_value gw, netWeight = num_value nw,
                   makingChargeType = f_makingChargeType f,
                   makingChargeValue = num_value mcv, applyGst = f_applyGst f \<rparr>))"

text \<open>
  A stand-in for \<open>parseFloat\<close> in the examples: it agrees with \<open>parseFloat\<close> on the
  empty string (\<open>NaN\<close>) and on short strings of decimal digits, the only strings the
  examples give it.
\<close>

definition digit_of :: "char \<Rightarrow> nat option" where
  "digit_of c =
     (let n = (of_char c :: nat) in if 48 \<le> n \<and> n \<le> 57 then Some (n - 48) else None)"

fun digits_value :: "nat \<Rightarrow> string \<Rightarrow> nat option" where
  "digits_value acc [] = Some acc"
| "digits_value acc (c # cs) =
     (case digit_of c of None \<Rightarrow> None | Some d \<Rightarrow> digits_value (10 * acc + d) cs)"

definition parseFloat_digits :: "string \<Rightarrow> real option" where
  "parseFloat_digits s = (if s = [] then None else map_option real (digits_value 0 s))"

section \<open>Billing session (App, InvoicePreview.handleClear)\<close>

text \<open>
  The state of the invoice in progress: \<open>items\<close>, \<open>customer\<close>, \<open>gstRate\<close> and
  \<open>invoiceNumber\<close> live in \<open>App\<close>, \<open>discountType\<close> and \<open>discountValue\<close> (the text of the
  input) in \<open>InvoicePreview\<close>.
\<close>

record BillingSession =
  items :: "InvoiceItem list"
  customer :: Customer
  gstRate :: real
  invoiceNumber :: real
  discountType :: DiscountType
  discountValue :: string

text \<open>\<open>prev + 1\<close> is an addition of doubles.\<close>

definition handleClearInvoice :: "BillingSession \<Rightarrow> BillingSession" where
  "handleClearInvoice s =
     s\<lparr> items := [], customer := \<lparr> name = [], phone = [] \<rparr>,
        invoiceNumber := double_add (invoiceNumber s) 1 \<rparr>"

text \<open>\<open>handleInvoiceNumberChange\<close> on the result of \<open>parseInt(e.target.value, 10)\<close>.\<close>

definition handleInvoiceNumberChange :: "real option \<Rightarrow> BillingSession \<Rightarrow> BillingSession" where
  "handleInvoiceNumberChange v s =
     s\<lparr> invoiceNumber := (if isNaN v \<or> js_lt v (Some 1) then 1 else num_value v) \<rparr>"

definition handleClear :: "BillingSession \<Rightarrow> BillingSession" where
  "handleClear s = (handleClearInvoice s)\<lparr> discountValue := [], discountType := PERCENT \<rparr>"

section \<open>Parties (App.handleAddParty)\<close>

text \<open>\<open>Omit<Party, 'id'>\<close>, the argument of \<open>handleAddParty\<close>.\<close>

record PartyInput =
  in_name :: string
  in_phone :: string
  in_type :: PartyType

text \<open>
  \<open>handleAddParty\<close> on the party list and the console: the duplicate is reported with
  \<open>console.error\<close> and the party list is left as it is.
\<close>

definition handleAddParty ::
  "Party list \<times> string list \<Rightarrow> PartyInput \<Rightarrow> Party list \<times> string list" where
  "handleAddParty st party =
     (case st of (parties, console) \<Rightarrow>
        if list_ex (\<lambda>p. party_phone p = in_phone party) parties
        then (parties, console @ [''A party with this phone number already exists.''])
        else (parties @ [\<lparr> party_id = in_phone party, party_name = in_name party,
                            party_phone = in_phone party, party_type = in_type party \<rparr>],
              console))"

section \<open>Interest (Byajbook, LoanDetails)\<close>

record InterestResult =
  interest :: real
  totalPayable :: real
  daysPassed :: int

text \<open>The memoised computation of \<open>LoanDetails\<close>; \<open>currentDate\<close> is \<open>new Date()\<close>.\<close>

definition loanInterest :: "int \<Rightarrow> ByajLoan \<Rightarrow> InterestResult" where
  "loanInterest currentDate loan =
     (if interestType loan = SIMPLE
      then
        (let timeDiff = real_of_int (currentDate - loanDate loan);
             days = max 0 (timeDiff / (1000 * 3600 * 24));
             interestAmount =
               (if interestRatePeriod loan = MONTHLY
                then (principalAmount loan * interestRate loan * (days / 30.4375)) / 100
                else (principalAmount loan * interestRate loan * (days / 365.25)) / 100)
         in \<lparr> interest = interestAmount,
              totalPayable = principalAmount loan + interestAmount,
              daysPassed = \<lfloor>days\<rfloor> \<rparr>)
      else \<lparr> interest = 0, totalPayable = principalAmount loan, daysPassed = 0 \<rparr>)"

section \<open>Byajbook navigation\<close>

datatype View = LIST | DETAILS | ADD_LOAN

record ByajbookState =
  view :: View
  selectedLoanId :: "string option"

text \<open>What the component returns: \<open>null\<close> or one of its three child components.\<close>

datatype Rendered =
    RenderNull
  | AddLoanForm
  | LoanDetails ByajLoan
  | LoanList "ByajLoan list"

text \<open>\<open>loans.find(l => l.id === selectedLoanId) || null\<close>; no id equals \<open>null\<close>.\<close>

definition selectedLoan :: "ByajLoan list \<Rightarrow> string option \<Rightarrow> ByajLoan option" where
  "selectedLoan loans sel = find (\<lambda>l. Some (loan_id l) = sel) loans"

definition Byajbook :: "ByajLoan list \<Rightarrow> ByajbookState \<Rightarrow> Rendered" where
  "Byajbook loans s =
     (case view s of
        ADD_LOAN \<Rightarrow> AddLoanForm
      | DETAILS \<Rightarrow>
          (case selectedLoan loans (selectedLoanId s) of
             None \<Rightarrow> RenderNull
           | Some loan \<Rightarrow> LoanDetails loan)
      | LIST \<Rightarrow> LoanList loans)"

text \<open>The callbacks handed to the child components.\<close>

definition initialByajbook :: ByajbookState where
  "initialByajbook = \<lparr> view = LIST, selectedLoanId = None \<rparr>"

definition onSelectLoan :: "string \<Rightarrow> ByajbookState \<Rightarrow> ByajbookState" where
  "onSelectLoan loanId s = s\<lparr> selectedLoanId := Some loanId, view := DETAILS \<rparr>"

definition onAddLoan :: "ByajbookState \<Rightarrow> ByajbookState" where
  "onAddLoan s = s\<lparr> view := ADD_LOAN \<rparr>"

definition onBack :: "ByajbookState \<Rightarrow> ByajbookState" where
  "onBack s = s\<lparr> view := LIST \<rparr>"

section \<open>Party balances (Khatabook, Reports)\<close>

text \<open>
  The three computations of a balance take the addition of balances as the parameter
  \<open>add\<close>: \<open>double_add\<close> is the addition the program performs, \<open>(+)\<close> the exact one.
  Negating an amount is exact in both.
\<close>

text \<open>\<open>balances.get(k) || 0\<close>: a missing key reads as \<open>0\<close>.\<close>

definition get_or_0 :: "(string \<rightharpoonup> real) \<Rightarrow> string \<Rightarrow> real" where
  "get_or_0 balances k = (case balances k of None \<Rightarrow> 0 | Some v \<Rightarrow> if v = 0 then 0 else v)"

text \<open>\<open>CustomerList.partyBalances\<close>: the test is on \<open>CREDIT\<close>.\<close>

definition partyBalances ::
  "(real \<Rightarrow> real \<Rightarrow> real) \<Rightarrow> KhataTransaction list \<Rightarrow> (string \<rightharpoonup> real)" where
  "partyBalances add transactions =
     foldl (\<lambda>balances t.
              let currentBalance = get_or_0 balances (partyId t);
                  newBalance = add currentBalance
                                 (if txn_type t = CREDIT then - amount t else amount t)
              in balances(partyId t \<mapsto> newBalance))
           Map.empty transactions"

definition customerList_balance ::
  "(real \<Rightarrow> real \<Rightarrow> real) \<Rightarrow> KhataTransaction list \<Rightarrow> Party \<Rightarrow> real" where
  "customerList_balance add transactions party =
     get_or_0 (partyBalances add transactions) (party_id party)"

text \<open>
  \<open>CustomerLedger\<close>: the stable sort by date, then the \<open>map\<close> that updates
  \<open>runningBalance\<close> as it goes (the balance is threaded through), then \<open>reverse\<close>.
\<close>

record TransactionRow =
  row_txn :: KhataTransaction
  balance :: real

fun ledger_rows :: "real \<Rightarrow> KhataTransaction list \<Rightarrow> TransactionRow list \<times> real" where
  "ledger_rows runningBalance [] = ([], runningBalance)"
| "ledger_rows runningBalance (t # ts) =
     (let rb = runningBalance + (if txn_type t = DEBIT then amount t else - amount t);
          (rows, final) = ledger_rows rb ts
      in (\<lparr> row_txn = t, balance = rb \<rparr> # rows, final))"

record LedgerResult =
  finalBalance :: real
  transactionRows :: "TransactionRow list"

definition customerLedger :: "KhataTransaction list \<Rightarrow> LedgerResult" where
  "customerLedger transactions =
     (let sorted = sort_key date transactions;
          (rows, runningBalance) = ledger_rows 0 sorted
      in \<lparr> finalBalance = runningBalance, transactionRows = rev rows \<rparr>)"

text \<open>The same component with the addition of \<open>runningBalance\<close> as the parameter
  \<open>add\<close>; with \<open>(+)\<close> it is \<open>customerLedger\<close>.\<close>

fun ledger_rows_by ::
  "(real \<Rightarrow> real \<Rightarrow> real) \<Rightarrow> real \<Rightarrow> KhataTransaction list \<Rightarrow> TransactionRow list \<times> real" where
  "ledger_rows_by add runningBalance [] = ([], runningBalance)"
| "ledger_rows_by add runningBalance (t # ts) =
     (let rb = add runningBalance (if txn_type t = DEBIT then amount t else - amount t);
          (rows, final) = ledger_rows_by add rb ts
      in (\<lparr> row_txn = t, balance = rb \<rparr> # rows, final))"

definition customerLedger_by ::
  "(real \<Rightarrow> real \<Rightarrow> real) \<Rightarrow> KhataTransaction list \<Rightarrow> LedgerResult" where
  "customerLedger_by add transactions =
     (let sorted = sort_key date transactions;
          (rows, runningBalance) = ledger_rows_by add 0 sorted
      in \<lparr> finalBalance = runningBalance, transactionRows = rev rows \<rparr>)"

text \<open>\<open>Khatabook\<close> hands the ledger the transactions of the selected party.\<close>

definition ledger_of_party ::
  "(real \<Rightarrow> real \<Rightarrow> real) \<Rightarrow> KhataTransaction list \<Rightarrow> Party \<Rightarrow> LedgerResult" where
  "ledger_of_party add transactions party =
     customerLedger_by add (filter (\<lambda>t. partyId t = party_id party) transactions)"

text \<open>\<open>Reports\<close>: the test is on \<open>DEBIT\<close>; \<open>allPartyBalances\<close> pairs each party with its
  balance.\<close>

definition reportBalances ::
  "(real \<Rightarrow> real \<Rightarrow> real) \<Rightarrow> KhataTransaction list \<Rightarrow> (string \<rightharpoonup> real)" where
  "reportBalances add transactions =
     foldl (\<lambda>balances t.
              let currentBalance = get_or_0 balances (partyId t);
                  newBalance = add currentBalance
                                 (if txn_type t = DEBIT then amount t else - amount t)
              in balances(partyId t \<mapsto> newBalance))
           Map.empty transactions"

definition allPartyBalances ::
  "(real \<Rightarrow> real \<Rightarrow> real) \<Rightarrow> Party list \<Rightarrow> KhataTransaction list \<Rightarrow> (Party \<times> real) list" where
  "allPartyBalances add parties transactions =
     map (\<lambda>party. (party, get_or_0 (reportBalances add transactions) (party_id party)))
       parties"

definition report_balance ::
  "(real \<Rightarrow> real \<Rightarrow> real) \<Rightarrow> KhataTransaction list \<Rightarrow> Party \<Rightarrow> real" where
  "report_balance add transactions party =
     get_or_0 (reportBalances add transactions) (party_id party)"

text \<open>
  \<open>App.handleAddKhataTransaction\<close>, the only writer of the transaction list: the new
  transaction, with its identifier and date, is appended and the list is sorted by
  date.
\<close>

definition handleAddKhataTransaction ::
  "KhataTransaction list \<Rightarrow> KhataTransaction \<Rightarrow> KhataTransaction list" where
  "handleAddKhataTransaction prev newTransaction = sort_key date (prev @ [newTransaction])"

section \<open>Validity and example data\<close>

text \<open>What \<open>handleSubmit\<close> has checked of every item it adds to the session.\<close>

definition valid_item :: "InvoiceItem \<Rightarrow> bool" where
  "valid_item it =
     (0 < grossWeight it \<and> 0 < netWeight it \<and> 0 \<le> makingChargeValue it
      \<and> netWeight it \<le> grossWeight it)"

text \<open>Sample data for the concrete instances below.\<close>

definition ex_rates :: Rates where
  "ex_rates = \<lparr> rate_GOLD = 50, rate_SILVER = 1 \<rparr>"

text \<open>The code units of \<open>Ring\<close> and of \<open>Chain\<close>.\<close>

definition ex_ring :: InvoiceItem where
  "ex_ring = \<lparr> item_id = ''2024-01-01T00:00:00.000Z'',
               description = [0x52, 0x69, 0x6E, 0x67],
               metal = GOLD, grossWeight = 1, netWeight = 1,
               makingChargeType = FLAT, makingChargeValue = 0, applyGst = True \<rparr>"

definition ex_chain :: InvoiceItem where
  "ex_chain = \<lparr> item_id = ''2024-01-01T00:00:01.000Z'',
                description = [0x43, 0x68, 0x61, 0x69, 0x6E],
                metal = SILVER, grossWeight = 12, netWeight = 10,
                makingChargeType = PER_GRAM, makingChargeValue = 2, applyGst = True \<rparr>"

definition ex_loan :: ByajLoan where
  "ex_loan = \<lparr> loan_id = ''L1'', borrower_name = ''Asha'', borrower_phone = ''9000000001'',
               borrower_address = ''Main Road'', principalAmount = 10000, interestRate = 2,
               interestRatePeriod = MONTHLY, interestType = SIMPLE,
               loanDate = 1700000000000 \<rparr>"

text \<open>The sign convention of the ledger: a debit adds its amount, a credit subtracts it.\<close>

definition signed_amount :: "KhataTransaction \<Rightarrow> real" where
  "signed_amount t = (case txn_type t of DEBIT \<Rightarrow> amount t | CREDIT \<Rightarrow> - amount t)"

definition ex_debit :: KhataTransaction where
  "ex_debit = \<lparr> txn_id = ''t1'', date = 1000, partyId = ''9000000001'',
                txn_description = ''Goods given'', txn_type = DEBIT, amount = 100 \<rparr>"

definition ex_credit :: KhataTransaction where
  "ex_credit = \<lparr> txn_id = ''t2'', date = 2000, partyId = ''9000000001'',
                 txn_description = ''Cash received'', txn_type = CREDIT, amount = 40 \<rparr>"

text \<open>
  Three debits of one party whose amounts are the doubles written \<open>0.1\<close>, \<open>0.2\<close> and
  \<open>0.3\<close>, the first of them with the latest date.
\<close>

definition ex_tenth :: KhataTransaction where
  "ex_tenth = \<lparr> txn_id = ''a'', date = 3000, partyId = ''9000000001'',
                txn_description = ''Polish'', txn_type = DEBIT,
                amount = 3602879701896397 / 36028797018963968 \<rparr>"

definition ex_fifth :: KhataTransaction where
  "ex_fifth = \<lparr> txn_id = ''b'', date = 1000, partyId = ''9000000001'',
                txn_description = ''Clasp'', txn_type = DEBIT,
                amount = 3602879701896397 / 18014398509481984 \<rparr>"

definition ex_three_tenths :: KhataTransaction where
  "ex_three_tenths = \<lparr> txn_id = ''c'', date = 2000, partyId = ''9000000001'',
                txn_description = ''Hook'', txn_type = DEBIT,
                amount = 5404319552844595 / 18014398509481984 \<rparr>"

text \<open>Four states of the billing form: a good line, a line whose description is a
  single space, a line whose description is a single no-break space, and a line whose
  net weight exceeds its gross weight.\<close>

definition ex_form :: BillingFormState where
  "ex_form = \<lparr> f_description = [0x52, 0x69, 0x6E, 0x67], f_metal = GOLD,
               f_grossWeight = ''10'',
               f_netWeight = ''5'', f_makingChargeType = PER_GRAM,
               f_makingChargeValue = ''0'', f_applyGst = False, f_error = None \<rparr>"

definition ex_blank_form :: BillingFormState where
  "ex_blank_form = ex_form\<lparr> f_description := [0x20] \<rparr>"

definition ex_nbsp_form :: BillingFormState where
  "ex_nbsp_form = ex_form\<lparr> f_description := [0xA0] \<rparr>"

definition ex_heavy_form :: BillingFormState where
  "ex_heavy_form = ex_form\<lparr> f_netWeight := ''12'' \<rparr>"

definition ex_party :: Party where
  "ex_party = \<lparr> party_id = ''9000000001'', party_name = ''Asha'',
                party_phone = ''9000000001'', party_type = CUSTOMER \<rparr>"

definition ex_session :: BillingSession where
  "ex_session = \<lparr> items = [ex_ring], customer = \<lparr> name = ''Asha'', phone = ''9000000001'' \<rparr>,
                  gstRate = 3, invoiceNumber = 7, discountType = FIXED,
                  discountValue = ''25'' \<rparr>"

definition ex_empty_session :: BillingSession where
  "ex_empty_session = \<lparr> items = [], customer = \<lparr> name = [], phone = [] \<rparr>,
                  gstRate = 3, invoiceNumber = 7, discountType = PERCENT,
                  discountValue = [] \<rparr>"

section \<open>Properties of the invoice computation\<close>

lemma foldl_add_sum_list:
  "foldl (\<lambda>acc c. acc + f c) a cs = (a::real) + sum_list (map f cs)"
  by (induction cs arbitrary: a) simp_all

lemma subTotal_sum:
  "subTotal rates g its = (\<Sum>it\<leftarrow>its. valueBeforeGst (calc_item rates g it))"
  by (simp add: subTotal_def calculations_def foldl_add_sum_list comp_def)

lemma gstAmount_sum:
  "gstAmount rates g its = (\<Sum>it\<leftarrow>its. itemGstAmount (calc_item rates g it))"
  by (simp add: gstAmount_def calculations_def foldl_add_sum_list comp_def)

lemma totalBeforeDiscount_sum:
  "totalBeforeDiscount rates g its = (\<Sum>it\<leftarrow>its. totalValue (calc_item rates g it))"
proof -
  have "totalValue (calc_item rates g it)
          = valueBeforeGst (calc_item rates g it) + itemGstAmount (calc_item rates g it)" for it
    by (simp add: calc_item_def Let_def)
  then show ?thesis
    by (simp add: totalBeforeDiscount_def subTotal_sum gstAmount_sum sum_list_addf)
qed

text \<open>
  C1. Each element of \<open>calculations\<close> carries the amounts of the pricing formulas:
  the rate is the gold rate of the table for a gold item and the silver rate for a
  silver item, the metal value is net weight times that rate, the making charge is the
  charge value times the gross weight per gram and the charge value itself when flat,
  the taxable amount is their sum, the tax is that amount times \<open>gstRate / 100\<close> when
  the item's tax flag is set and \<open>0\<close> otherwise, and the line total is the taxable
  amount plus the tax. The subtotal, the tax total and the total before discount are
  the sums over all items of the taxable amounts, of the taxes, and of both.
\<close>

theorem invoice_formulas:
  "calculations rates g its = map (calc_item rates g) its
   \<and> item (calc_item rates g it) = it
   \<and> rate (calc_item rates g it)
       = (case metal it of GOLD \<Rightarrow> rate_GOLD rates | SILVER \<Rightarrow> rate_SILVER rates)
   \<and> metalValue (calc_item rates g it)
       = (case metal it of
            GOLD \<Rightarrow> netWeight it * rate_GOLD rates
          | SILVER \<Rightarrow> netWeight it * rate_SILVER rates)
   \<and> makingCharges (calc_item rates g it)
       = (case makingChargeType it of
            PER_GRAM \<Rightarrow> makingChargeValue it * grossWeight it
          | FLAT \<Rightarrow> makingChargeValue it)
   \<and> valueBeforeGst (calc_item rates g it)
       = metalValue (calc_item rates g it) + makingCharges (calc_item rates g it)
   \<and> itemGstAmount (calc_item rates g it)
       = (if applyGst it then valueBeforeGst (calc_item rates g it) * (g / 100) else 0)
   \<and> totalValue (calc_item rates g it)
       = valueBeforeGst (calc_item rates g it) + itemGstAmount (calc_item rates g it)
   \<and> subTotal rates g its = (\<Sum>i\<leftarrow>its. valueBeforeGst (calc_item rates g i))
   \<and> gstAmount rates g its = (\<Sum>i\<leftarrow>its. itemGstAmount (calc_item rates g i))
   \<and> totalBeforeDiscount rates g its
       = (\<Sum>i\<leftarrow>its. valueBeforeGst (calc_item rates g i) + itemGstAmount (calc_item rates g i))
   \<and> totalBeforeDiscount rates g its = subTotal rates g its + gstAmount rates g its"
proof -
  have foldl_sum: "foldl (\<lambda>acc c. acc + f c) a cs = (a::real) + sum_list (map f cs)"
    for f :: "Calculation \<Rightarrow> real" and a cs
    by (induction cs arbitrary: a) simp_all
  have per_item:
    "item (calc_item rates g it) = it"
    "rate (calc_item rates g it)
       = (case metal it of GOLD \<Rightarrow> rate_GOLD rates | SILVER \<Rightarrow> rate_SILVER rates)"
    "metalValue (calc_item rates g it)
       = (case metal it of
            GOLD \<Rightarrow> netWeight it * rate_GOLD rates
          | SILVER \<Rightarrow> netWeight it * rate_SILVER rates)"
    "makingCharges (calc_item rates g it)
       = (case makingChargeType it of
            PER_GRAM \<Rightarrow> makingChargeValue it * grossWeight it
          | FLAT \<Rightarrow> makingChargeValue it)"
    "valueBeforeGst (calc_item rates g it)
       = metalValue (calc_item rates g it) + makingCharges (calc_item rates g it)"
    "itemGstAmount (calc_item rates g it)
       = (if applyGst it then valueBeforeGst (calc_item rates g it) * (g / 100) else 0)"
    "totalValue (calc_item rates g it)
       = valueBeforeGst (calc_item rates g it) + itemGstAmount (calc_item rates g it)"
    by (simp_all add: calc_item_def Let_def split: MakingChargeType.split MetalType.split)
  have sub: "subTotal rates g its = (\<Sum>i\<leftarrow>its. valueBeforeGst (calc_item rates g i))"
    by (simp add: subTotal_def calculations_def foldl_sum comp_def)
  have gst: "gstAmount rates g its = (\<Sum>i\<leftarrow>its. itemGstAmount (calc_item rates g i))"
    by (simp add: gstAmount_def calculations_def foldl_sum comp_def)
  have both: "totalBeforeDiscount rates g its
       = (\<Sum>i\<leftarrow>its. valueBeforeGst (calc_item rates g i) + itemGstAmount (calc_item rates g i))"
    by (simp add: totalBeforeDiscount_def sub gst sum_list_addf)
  have tot: "totalBeforeDiscount rates g its = subTotal rates g its + gstAmount rates g its"
    by (simp add: totalBeforeDiscount_def)
  have calcs: "calculations rates g its = map (calc_item rates g) its"
    by (simp add: calculations_def)
  from calcs per_item sub gst both tot show ?thesis by (intro conjI)
qed

text \<open>A silver chain and the gold ring at a tax rate of \<open>3\<close> percent.\<close>

theorem invoice_formulas_witness:
  "metal ex_chain = SILVER \<and> rate_SILVER ex_rates = 1 \<and> rate_GOLD ex_rates = 50
   \<and> rate (calc_item ex_rates 3 ex_chain) = 1
   \<and> metalValue (calc_item ex_rates 3 ex_chain) = 10
   \<and> makingCharges (calc_item ex_rates 3 ex_chain) = 24
   \<and> valueBeforeGst (calc_item ex_rates 3 ex_chain) = 34
   \<and> itemGstAmount (calc_item ex_rates 3 ex_chain) = 1.02
   \<and> totalValue (calc_item ex_rates 3 ex_chain) = 35.02
   \<and> metalValue (calc_item ex_rates 3 ex_ring) = 50
   \<and> subTotal ex_rates 3 [ex_ring, ex_chain] = 84
   \<and> gstAmount ex_rates 3 [ex_ring, ex_chain] = 2.52
   \<and> totalBeforeDiscount ex_rates 3 [ex_ring, ex_chain] = 86.52"
proof -
  have chain: "metal ex_chain = SILVER" "netWeight ex_chain = 10" "grossWeight ex_chain = 12"
    "makingChargeType ex_chain = PER_GRAM" "makingChargeValue ex_chain = 2" "applyGst ex_chain"
    by (simp_all add: ex_chain_def)
  have ring: "metal ex_ring = GOLD" "netWeight ex_ring = 1" "grossWeight ex_ring = 1"
    "makingChargeType ex_ring = FLAT" "makingChargeValue ex_ring = 0" "applyGst ex_ring"
    by (simp_all add: ex_ring_def)
  have rates: "rate_SILVER ex_rates = 1" "rate_GOLD ex_rates = 50"
    by (simp_all add: ex_rates_def)
  note c = invoice_formulas [of ex_rates 3 "[ex_ring, ex_chain]" ex_chain,
      unfolded chain rates]
  note r = invoice_formulas [of ex_rates 3 "[ex_ring, ex_chain]" ex_ring,
      unfolded ring rates]
  have cv: "rate (calc_item ex_rates 3 ex_chain) = 1"
    "metalValue (calc_item ex_rates 3 ex_chain) = 10"
    "makingCharges (calc_item ex_rates 3 ex_chain) = 24"
    "valueBeforeGst (calc_item ex_rates 3 ex_chain) = 34"
    "itemGstAmount (calc_item ex_rates 3 ex_chain) = 1.02"
    "totalValue (calc_item ex_rates 3 ex_chain) = 35.02"
    using c chain(6) by simp_all
  have rv: "metalValue (calc_item ex_rates 3 ex_ring) = 50"
    "valueBeforeGst (calc_item ex_rates 3 ex_ring) = 50"
    "itemGstAmount (calc_item ex_rates 3 ex_ring) = 1.5"
    using r ring(6) by simp_all
  have sums: "subTotal ex_rates 3 [ex_ring, ex_chain] = 84"
    "gstAmount ex_rates 3 [ex_ring, ex_chain] = 2.52"
    "totalBeforeDiscount ex_rates 3 [ex_ring, ex_chain] = 86.52"
    using c chain(6) by (simp_all add: cv rv)
  from chain(1) rates cv rv(1) sums show ?thesis by (intro conjI)
qed

section \<open>Discount and grand total\<close>

lemma discountAmount_le: "discountAmount T dt v \<le> T"
  by (simp add: discountAmount_def Let_def)

lemma discountAmount_clamp:
  assumes "0 \<le> T"
  shows "discountAmount T dt v = max 0 (min T (if dt = PERCENT then T * (v / 100) else v))"
proof (cases "0 < v")
  case True
  then have "0 \<le> T * (v / 100)" using assms by simp
  with True assms show ?thesis
    by (auto simp: discountAmount_def Let_def max_def min_def)
next
  case False
  then have "T * (v / 100) \<le> 0" using assms by (simp add: mult_nonneg_nonpos)
  with False assms show ?thesis
    by (auto simp: discountAmount_def Let_def max_def min_def)
qed

lemma totalValue_nonneg:
  assumes "valid_item it" "0 \<le> rate_GOLD rates" "0 \<le> rate_SILVER rates" "0 \<le> g"
  shows "0 \<le> valueBeforeGst (calc_item rates g it)" "0 \<le> itemGstAmount (calc_item rates g it)"
proof -
  have r: "0 \<le> rate_of rates (metal it)" using assms by (cases "metal it") simp_all
  have mv: "0 \<le> netWeight it * rate_of rates (metal it)"
    using assms r by (simp add: valid_item_def)
  have mc: "0 \<le> (if makingChargeType it = PER_GRAM
                then makingChargeValue it * grossWeight it else makingChargeValue it)"
    using assms by (simp add: valid_item_def)
  show v: "0 \<le> valueBeforeGst (calc_item rates g it)"
    using mv mc by (simp add: calc_item_def Let_def)
  show "0 \<le> itemGstAmount (calc_item rates g it)"
    using mv mc assms(4) by (simp add: calc_item_def Let_def)
qed

lemma totalBeforeDiscount_nonneg:
  assumes "\<forall>it\<in>set its. valid_item it" "0 \<le> rate_GOLD rates" "0 \<le> rate_SILVER rates" "0 \<le> g"
  shows "0 \<le> totalBeforeDiscount rates g its"
proof -
  have "0 \<le> (\<Sum>it\<leftarrow>its. valueBeforeGst (calc_item rates g it))"
    using assms by (intro sum_list_nonneg) (auto simp: totalValue_nonneg)
  moreover have "0 \<le> (\<Sum>it\<leftarrow>its. itemGstAmount (calc_item rates g it))"
    using assms by (intro sum_list_nonneg) (auto simp: totalValue_nonneg)
  ultimately show ?thesis
    by (simp add: totalBeforeDiscount_def subTotal_sum gstAmount_sum)
qed

lemma grandTotal_nonneg: "0 \<le> grandTotal rates g its dt v"
  using discountAmount_le [of "totalBeforeDiscount rates g its" dt v]
  by (simp add: grandTotal_def)

lemma ex_total: "totalBeforeDiscount ex_rates 0 [ex_ring] = 50"
  by (simp add: totalBeforeDiscount_def subTotal_def gstAmount_def calculations_def
        calc_item_def ex_rates_def ex_ring_def)

lemma ex_total_neg: "totalBeforeDiscount ex_rates (-200) [ex_ring] = -50"
  by (simp add: totalBeforeDiscount_def subTotal_def gstAmount_def calculations_def
        calc_item_def ex_rates_def ex_ring_def)

text \<open>
  C2 (as amended). For every rate table, tax rate, item list, discount type and numeric
  discount value, \<open>grandTotal\<close> is the total before discount minus \<open>discountAmount\<close> and
  is never negative. Whenever the total before discount is not negative,
  \<open>discountAmount\<close> is the percentage of the total (\<open>PERCENT\<close>) or the value itself
  (\<open>FIXED\<close>) clamped to the interval from \<open>0\<close> to the total, and \<open>grandTotal\<close> is at most
  the total. The total is not negative when every item is valid, no rate is negative
  and the tax rate is not negative.
\<close>

theorem grandTotal_clamped:
  "grandTotal rates g its dt v
     = totalBeforeDiscount rates g its - discountAmount (totalBeforeDiscount rates g its) dt v
   \<and> 0 \<le> grandTotal rates g its dt v
   \<and> (0 \<le> totalBeforeDiscount rates g its \<longrightarrow>
        discountAmount (totalBeforeDiscount rates g its) dt v
          = max 0 (min (totalBeforeDiscount rates g its)
                       (if dt = PERCENT then totalBeforeDiscount rates g its * (v / 100) else v))
        \<and> 0 \<le> discountAmount (totalBeforeDiscount rates g its) dt v
        \<and> discountAmount (totalBeforeDiscount rates g its) dt v \<le> totalBeforeDiscount rates g its
        \<and> grandTotal rates g its dt v \<le> totalBeforeDiscount rates g its)
   \<and> ((\<forall>it\<in>set its. valid_item it) \<and> 0 \<le> rate_GOLD rates \<and> 0 \<le> rate_SILVER rates \<and> 0 \<le> g
        \<longrightarrow> 0 \<le> totalBeforeDiscount rates g its)"
proof -
  let ?T = "totalBeforeDiscount rates g its"
  have clamp: "discountAmount ?T dt v
          = max 0 (min ?T (if dt = PERCENT then ?T * (v / 100) else v))" if "0 \<le> ?T"
    using that by (rule discountAmount_clamp)
  have lower: "0 \<le> discountAmount ?T dt v" if "0 \<le> ?T"
    using clamp [OF that] by simp
  have upper: "grandTotal rates g its dt v \<le> ?T" if "0 \<le> ?T"
    using lower [OF that] by (simp add: grandTotal_def)
  show ?thesis
    using clamp lower upper grandTotal_nonneg [of rates g its dt v]
      discountAmount_le [of ?T dt v] totalBeforeDiscount_nonneg [of its rates g]
    by (simp add: grandTotal_def)
qed

text \<open>The ring at 50 per gram: 60 percent, a negative fixed discount, and a fixed
  discount above the total.\<close>

theorem grandTotal_clamped_witness:
  "valid_item ex_ring \<and> totalBeforeDiscount ex_rates 0 [ex_ring] = 50
   \<and> discountAmount 50 PERCENT 60 = 30
   \<and> grandTotal ex_rates 0 [ex_ring] PERCENT 60 = 20
   \<and> discountAmount 50 FIXED (-5) = 0
   \<and> grandTotal ex_rates 0 [ex_ring] FIXED (-5) = 50
   \<and> discountAmount 50 FIXED 70 = 50
   \<and> grandTotal ex_rates 0 [ex_ring] FIXED 70 = 0"
proof -
  have v: "valid_item ex_ring"
    by (simp add: valid_item_def ex_ring_def)
  note T = ex_total
  note a = grandTotal_clamped [of ex_rates 0 "[ex_ring]" PERCENT 60, unfolded T]
  note b = grandTotal_clamped [of ex_rates 0 "[ex_ring]" FIXED "-5", unfolded T]
  note c = grandTotal_clamped [of ex_rates 0 "[ex_ring]" FIXED 70, unfolded T]
  show ?thesis using v T a b c by simp
qed

text \<open>
  C2 as stated fails when the total before discount is negative, which a negative tax
  rate produces (\<open>handleGstRateChange\<close> accepts any number): the discount amount is
  then the negative total, below \<open>0\<close>, and \<open>grandTotal\<close> is \<open>0\<close>, above the total.
\<close>

theorem grandTotal_negative_total_counterexample:
  "totalBeforeDiscount ex_rates (-200) [ex_ring] = -50
   \<and> discountAmount (-50) FIXED 0 = -50
   \<and> grandTotal ex_rates (-200) [ex_ring] FIXED 0 = 0
   \<and> \<not> (0 \<le> discountAmount (totalBeforeDiscount ex_rates (-200) [ex_ring]) FIXED 0)
   \<and> \<not> (grandTotal ex_rates (-200) [ex_ring] FIXED 0
           \<le> totalBeforeDiscount ex_rates (-200) [ex_ring])"
  by (simp add: grandTotal_def ex_total_neg discountAmount_def)

text \<open>
  C3 (as amended). \<open>grandTotal\<close> is never negative. It is exactly \<open>0\<close> for a \<open>FIXED\<close>
  discount whose value is at least the total before discount, and for a \<open>PERCENT\<close>
  discount whose percentage of the total is at least the total, in particular for a
  percentage of \<open>100\<close> or more of a total that is not negative.
\<close>

theorem full_discount_gives_zero:
  "0 \<le> grandTotal rates g its dt v
   \<and> (totalBeforeDiscount rates g its \<le> v \<longrightarrow> grandTotal rates g its FIXED v = 0)
   \<and> (totalBeforeDiscount rates g its \<le> totalBeforeDiscount rates g its * (v / 100)
        \<longrightarrow> grandTotal rates g its PERCENT v = 0)
   \<and> (0 \<le> totalBeforeDiscount rates g its \<and> 100 \<le> v
        \<longrightarrow> grandTotal rates g its PERCENT v = 0)"
proof -
  let ?T = "totalBeforeDiscount rates g its"
  have fixed: "grandTotal rates g its FIXED v = 0" if "?T \<le> v"
    using that by (auto simp: grandTotal_def discountAmount_def Let_def)
  have percent: "grandTotal rates g its PERCENT v = 0" if "?T \<le> ?T * (v / 100)"
  proof (cases "0 < v")
    case True
    with that show ?thesis by (auto simp: grandTotal_def discountAmount_def Let_def)
  next
    case False
    show ?thesis
    proof (cases "0 \<le> ?T")
      case True
      with False have "?T * (v / 100) \<le> 0" by (simp add: mult_nonneg_nonpos)
      with that True have "?T = 0" by simp
      then show ?thesis using False by (simp add: grandTotal_def discountAmount_def)
    next
      case False
      with \<open>\<not> 0 < v\<close> show ?thesis by (simp add: grandTotal_def discountAmount_def)
    qed
  qed
  have hundred: "grandTotal rates g its PERCENT v = 0" if "0 \<le> ?T" "100 \<le> v"
  proof -
    have "?T * 1 \<le> ?T * (v / 100)"
      using that by (intro mult_left_mono) simp_all
    then show ?thesis using percent by simp
  qed
  show ?thesis
    using fixed percent hundred grandTotal_nonneg [of rates g its dt v] by blast
qed

theorem full_discount_gives_zero_witness:
  "totalBeforeDiscount ex_rates 0 [ex_ring] = 50
   \<and> grandTotal ex_rates 0 [ex_ring] FIXED 60 = 0
   \<and> grandTotal ex_rates 0 [ex_ring] PERCENT 100 = 0
   \<and> grandTotal ex_rates 0 [ex_ring] PERCENT 250 = 0"
  using full_discount_gives_zero [of ex_rates 0 "[ex_ring]" FIXED 60]
    full_discount_gives_zero [of ex_rates 0 "[ex_ring]" PERCENT 100]
    full_discount_gives_zero [of ex_rates 0 "[ex_ring]" PERCENT 250]
  by (simp add: ex_total)

text \<open>
  C3 as stated fails in \<open>PERCENT\<close> mode, where the value is a percentage: on a total of
  \<open>50\<close> the value \<open>60\<close> is at least the total, yet \<open>grandTotal\<close> is \<open>20\<close>.
\<close>

theorem percent_discount_above_total_counterexample:
  "totalBeforeDiscount ex_rates 0 [ex_ring] = 50
   \<and> totalBeforeDiscount ex_rates 0 [ex_ring] \<le> 60
   \<and> grandTotal ex_rates 0 [ex_ring] PERCENT 60 = 20"
  by (simp add: grandTotal_def ex_total discountAmount_def)

section \<open>Interest accrual\<close>

text \<open>
  C4. For a loan whose interest type is \<open>SIMPLE\<close>, evaluated at the instant \<open>e\<close>
  (milliseconds, like the loan date): the elapsed days are the difference in days,
  not below \<open>0\<close>; the periods are the days divided by \<open>30.4375\<close> for a monthly rate and
  by \<open>365.25\<close> for an annual one; the interest is principal times rate times periods
  over \<open>100\<close>; the total payable is principal add interest; the days passed are the
  floor of the elapsed days. A monthly loan of \<open>10000\<close> at \<open>2\<close> percent evaluated
  \<open>30.4375\<close> days (\<open>2629800000\<close> ms) after the loan date owes interest \<open>200\<close> and
  \<open>10200\<close> in total.
\<close>

theorem simple_interest_formulas:
  "interestType loan = SIMPLE \<longrightarrow>
     (let elapsedDays = max 0 (real_of_int (e - loanDate loan) / 86400000);
          periods = (case interestRatePeriod loan of
                       MONTHLY \<Rightarrow> elapsedDays / 30.4375
                     | ANNUAL \<Rightarrow> elapsedDays / 365.25);
          r = loanInterest e loan
      in interest r = principalAmount loan * interestRate loan * periods / 100
         \<and> totalPayable r = principalAmount loan + interest r
         \<and> daysPassed r = \<lfloor>elapsedDays\<rfloor>
         \<and> (interestRatePeriod loan = MONTHLY \<and> principalAmount loan = 10000
              \<and> interestRate loan = 2 \<and> e - loanDate loan = 2629800000
              \<longrightarrow> interest r = 200 \<and> totalPayable r = 10200 \<and> daysPassed r = 30))"
proof
  assume simple: "interestType loan = SIMPLE"
  let ?days = "max 0 (real_of_int (e - loanDate loan) / 86400000)"
  let ?r = "loanInterest e loan"
  have i: "interest ?r = principalAmount loan * interestRate loan
             * (case interestRatePeriod loan of
                  MONTHLY \<Rightarrow> ?days / 30.4375 | ANNUAL \<Rightarrow> ?days / 365.25) / 100"
    using simple by (simp add: loanInterest_def Let_def split: InterestRatePeriod.split)
  have t: "totalPayable ?r = principalAmount loan + interest ?r"
    using simple by (simp add: loanInterest_def Let_def)
  have d: "daysPassed ?r = \<lfloor>?days\<rfloor>"
    using simple by (simp add: loanInterest_def Let_def)
  have ex: "interest ?r = 200 \<and> totalPayable ?r = 10200 \<and> daysPassed ?r = 30"
    if "interestRatePeriod loan = MONTHLY" "principalAmount loan = 10000"
       "interestRate loan = 2" "e - loanDate loan = 2629800000"
  proof -
    have days: "?days = 30.4375" using that(4) by simp
    have "\<lfloor>30.4375 :: real\<rfloor> = 30" by simp
    then show ?thesis
      using that(1,2,3) i t d unfolding days by simp
  qed
  show "let elapsedDays = ?days;
          periods = (case interestRatePeriod loan of
                       MONTHLY \<Rightarrow> elapsedDays / 30.4375
                     | ANNUAL \<Rightarrow> elapsedDays / 365.25);
          r = loanInterest e loan
      in interest r = principalAmount loan * interestRate loan * periods / 100
         \<and> totalPayable r = principalAmount loan + interest r
         \<and> daysPassed r = \<lfloor>elapsedDays\<rfloor>
         \<and> (interestRatePeriod loan = MONTHLY \<and> principalAmount loan = 10000
              \<and> interestRate loan = 2 \<and> e - loanDate loan = 2629800000
              \<longrightarrow> interest r = 200 \<and> totalPayable r = 10200 \<and> daysPassed r = 30)"
    unfolding Let_def using i t d ex by blast
qed

theorem simple_interest_formulas_witness:
  "interestType ex_loan = SIMPLE \<and> interestRatePeriod ex_loan = MONTHLY
   \<and> principalAmount ex_loan = 10000 \<and> interestRate ex_loan = 2
   \<and> 1702629800000 - loanDate ex_loan = 2629800000
   \<and> interest (loanInterest 1702629800000 ex_loan) = 200
   \<and> totalPayable (loanInterest 1702629800000 ex_loan) = 10200
   \<and> daysPassed (loanInterest 1702629800000 ex_loan) = 30"
proof -
  have h1: "interestType ex_loan = SIMPLE"
    and h2: "interestRatePeriod ex_loan = MONTHLY \<and> principalAmount ex_loan = 10000
       \<and> interestRate ex_loan = 2 \<and> 1702629800000 - loanDate ex_loan = 2629800000"
    by (simp_all add: ex_loan_def)
  from simple_interest_formulas [of ex_loan 1702629800000] h1
  have "interestRatePeriod ex_loan = MONTHLY \<and> principalAmount ex_loan = 10000
       \<and> interestRate ex_loan = 2 \<and> 1702629800000 - loanDate ex_loan = 2629800000
       \<longrightarrow> interest (loanInterest 1702629800000 ex_loan) = 200
         \<and> totalPayable (loanInterest 1702629800000 ex_loan) = 10200
         \<and> daysPassed (loanInterest 1702629800000 ex_loan) = 30"
    unfolding Let_def by blast
  with h2 have "interest (loanInterest 1702629800000 ex_loan) = 200
         \<and> totalPayable (loanInterest 1702629800000 ex_loan) = 10200
         \<and> daysPassed (loanInterest 1702629800000 ex_loan) = 30"
    by blast
  with h1 h2 show ?thesis by blast
qed

text \<open>Any other interest type falls through to the zero-interest result.\<close>

lemma compound_interest_is_zero:
  "loanInterest e (loan\<lparr>interestType := COMPOUND\<rparr>) = \<lparr>interest = 0, totalPayable = principalAmount loan, daysPassed = 0\<rparr>"
  by (simp add: loanInterest_def)

section \<open>Ledger aggregation\<close>

lemma ledger_step_signed:
  "(if txn_type t = DEBIT then amount t else - amount t) = signed_amount t"
  by (cases "txn_type t") (simp_all add: signed_amount_def)

lemma credit_step_signed:
  "(if txn_type t = CREDIT then - amount t else amount t) = signed_amount t"
  by (cases "txn_type t") (simp_all add: signed_amount_def)






lemma sum_list_sort_key:
  "sum_list (map f (sort_key k xs)) = (sum_list (map f xs) :: real)"
proof -
  have "mset (map f (sort_key k xs)) = mset (map f xs)" by simp
  then show ?thesis by (metis sum_mset_sum_list)
qed






section \<open>Exact and rounded additions of doubles\<close>

text \<open>An integer from \<open>1\<close> below \<open>2 ^ 53\<close> is a double; \<open>2 ^ 53 + 1\<close> is not, and rounds
  to \<open>2 ^ 53\<close>.\<close>

lemma bitlen_le_53:
  assumes "1 \<le> k" "k < 2 ^ 53"
  shows "bitlen k \<le> 53"
proof -
  from assms have pos: "0 < k" by simp
  from bitlen_bounds [OF pos] assms(2) have "(2::int) ^ nat (bitlen k - 1) < 2 ^ 53" by linarith
  then have "nat (bitlen k - 1) < 53" by (rule power_less_imp_less_exp [rotated]) simp
  then show ?thesis by linarith
qed

lemma round_double_small_int:
  assumes "1 \<le> k" "k < 2 ^ 53"
  shows "round_double (of_int k) = of_int k"
proof -
  from assms have pos: "0 < k" by simp
  define e where "e = bitlen k - 1"
  have e_le: "e \<le> 52" using bitlen_le_53 [OF assms] by (simp add: e_def)
  have b: "binade (of_int k) = e"
    using assms(1) by (simp add: binade_def e_def)
  define j where "j = nat (52 - e)"
  have j: "52 - e = int j" "e - 52 = - int j" using e_le by (simp_all add: j_def)
  have q: "real_of_int k * 2 powi (52 - e) = of_int (k * 2 ^ j)"
    by (simp add: j power_int_def)
  have unscale: "of_int (k * 2 ^ j) * (2::real) powi (e - 52) = of_int k"
    by (simp add: j power_int_minus field_simps)
  have nz: "real_of_int k \<noteq> 0" and ab: "\<bar>real_of_int k\<bar> = of_int k" and sg: "sgn (real_of_int k) = 1"
    using pos by simp_all
  show ?thesis
    unfolding round_double_def Let_def ab b q sg
    using nz unscale by simp
qed

lemma bitlen_2_53: "bitlen 9007199254740992 = 54" by code_simp
lemma bitlen_2_53_1: "bitlen 9007199254740993 = 54" by code_simp

lemma round_double_2_53: "round_double 9007199254740992 = 9007199254740992"
  by (simp add: round_double_def binade_def bitlen_2_53 Let_def power_int_def)

lemma round_double_2_53_1: "round_double 9007199254740993 = 9007199254740992"
  by (simp add: round_double_def binade_def bitlen_2_53_1 Let_def power_int_def)

lemma double_add_one_exact:
  assumes "x \<in> \<int>" "0 \<le> x" "x < 2 ^ 53"
  shows "double_add x 1 = x + 1"
proof -
  from assms(1) obtain n where x: "x = of_int n" by (auto elim: Ints_cases)
  with assms have n: "0 \<le> n" "n < 2 ^ 53" by simp_all
  show ?thesis
  proof (cases "n + 1 < 2 ^ 53")
    case True
    with n have "round_double (of_int (n + 1)) = of_int (n + 1)"
      by (intro round_double_small_int) simp_all
    then show ?thesis by (simp add: double_add_def x)
  next
    case False
    with n have "n + 1 = 9007199254740992" by simp
    then have "x + 1 = 9007199254740992" unfolding x
      by (metis of_int_1 of_int_add of_int_numeral)
    then show ?thesis by (simp add: double_add_def round_double_2_53)
  qed
qed

lemma double_add_one_lost: "double_add 9007199254740992 1 = 9007199254740992"
  by (simp add: double_add_def round_double_2_53_1)

section \<open>The three balance computations\<close>

lemma get_or_0_eq: "get_or_0 m k = (case m k of None \<Rightarrow> 0 | Some v \<Rightarrow> v)"
  by (simp add: get_or_0_def split: option.split)

text \<open>The balance of one party after the transactions \<open>ts\<close>, from the balance \<open>b\<close>: the
  signed amounts of the party's transactions are added one by one, in list order.\<close>

lemma fold_balances:
  assumes step: "\<And>t. d t = signed_amount t"
  shows "get_or_0 (foldl (\<lambda>balances t.
              let currentBalance = get_or_0 balances (partyId t);
                  newBalance = add currentBalance (d t)
              in balances(partyId t \<mapsto> newBalance)) m ts) k
         = foldl (\<lambda>b t. add b (signed_amount t)) (get_or_0 m k)
             (filter (\<lambda>t. partyId t = k) ts)"
    (is "get_or_0 (foldl ?F m ts) k = _")
proof (induction ts arbitrary: m)
  case Nil
  then show ?case by simp
next
  case (Cons t ts)
  let ?m = "m(partyId t \<mapsto> add (get_or_0 m (partyId t)) (d t))"
  have one: "get_or_0 ?m k
      = (if partyId t = k then add (get_or_0 m k) (signed_amount t) else get_or_0 m k)"
    by (simp add: get_or_0_eq step)
  have "get_or_0 (foldl ?F m (t # ts)) k = get_or_0 (foldl ?F ?m ts) k"
    by (simp only: foldl_Cons Let_def)
  also have "\<dots> = foldl (\<lambda>b t. add b (signed_amount t)) (get_or_0 ?m k)
      (filter (\<lambda>t. partyId t = k) ts)"
    by (rule Cons.IH)
  also have "\<dots> = foldl (\<lambda>b t. add b (signed_amount t)) (get_or_0 m k)
      (filter (\<lambda>t. partyId t = k) (t # ts))"
    unfolding one by simp
  finally show ?case .
qed

lemma partyBalances_fold:
  "get_or_0 (partyBalances add ts) k
     = foldl (\<lambda>b t. add b (signed_amount t)) 0 (filter (\<lambda>t. partyId t = k) ts)"
  unfolding partyBalances_def
  using fold_balances [of "\<lambda>t. if txn_type t = CREDIT then - amount t else amount t"
      add Map.empty ts k]
  by (simp add: credit_step_signed get_or_0_eq)

lemma reportBalances_fold:
  "get_or_0 (reportBalances add ts) k
     = foldl (\<lambda>b t. add b (signed_amount t)) 0 (filter (\<lambda>t. partyId t = k) ts)"
  unfolding reportBalances_def
  using fold_balances [of "\<lambda>t. if txn_type t = DEBIT then amount t else - amount t"
      add Map.empty ts k]
  by (simp add: ledger_step_signed get_or_0_eq)

lemma ledger_rows_by_final:
  "snd (ledger_rows_by add rb ts) = foldl (\<lambda>b t. add b (signed_amount t)) rb ts"
  by (induction ts arbitrary: rb)
     (simp_all add: Let_def ledger_step_signed case_prod_beta)

lemma customerLedger_by_final:
  "finalBalance (customerLedger_by add ts)
     = foldl (\<lambda>b t. add b (signed_amount t)) 0 (sort_key date ts)"
  by (simp add: customerLedger_by_def Let_def case_prod_beta ledger_rows_by_final)

lemma ledger_rows_by_exact: "ledger_rows_by (+) rb ts = ledger_rows rb ts"
  by (induction ts arbitrary: rb) (simp_all add: Let_def)

lemma customerLedger_by_exact: "customerLedger_by (+) ts = customerLedger ts"
  by (simp add: customerLedger_by_def customerLedger_def ledger_rows_by_exact)

lemma foldl_exact_sum:
  "foldl (\<lambda>b t. b + signed_amount t) b ts = b + sum_list (map signed_amount ts)"
  by (induction ts arbitrary: b) simp_all

lemma handleAddKhataTransaction_sorted:
  "sorted (map date (handleAddKhataTransaction prev newTransaction))"
  by (simp add: handleAddKhataTransaction_def)

text \<open>
  C10 (as amended). For every addition of balances, in particular the addition of
  doubles: the balance of the customer list (the map that tests for \<open>CREDIT\<close>) and the
  balance of the reports (the map that tests for \<open>DEBIT\<close>) are the same number for
  every transaction list and party, and \<open>allPartyBalances\<close> holds the same balances.
  When the transaction list is in ascending date order, the order in which
  \<open>handleAddKhataTransaction\<close> leaves it, the final balance of the party's ledger is
  that number too: the same additions in the same order. Over exact numbers the three
  agree for every list, on the sum of \<open>+amount\<close> for a debit and \<open>-amount\<close> for a credit
  over the party's transactions.
\<close>

theorem balance_views_agree:
  "customerList_balance add txns party = report_balance add txns party
   \<and> map snd (allPartyBalances add parties txns) = map (customerList_balance add txns) parties
   \<and> (sorted (map date txns) \<longrightarrow>
        customerList_balance add txns party = finalBalance (ledger_of_party add txns party)
        \<and> report_balance add txns party = finalBalance (ledger_of_party add txns party))
   \<and> customerList_balance (+) txns party = finalBalance (ledger_of_party (+) txns party)
   \<and> finalBalance (ledger_of_party (+) txns party)
        = (\<Sum>t\<leftarrow>filter (\<lambda>t. partyId t = party_id party) txns. signed_amount t)
   \<and> sorted (map date (handleAddKhataTransaction txns newTransaction))"
proof -
  let ?mine = "filter (\<lambda>t. partyId t = party_id party) txns"
  have same: "customerList_balance add txns party = report_balance add txns party" for add
    by (simp add: customerList_balance_def report_balance_def partyBalances_fold
        reportBalances_fold)
  have all: "map snd (allPartyBalances add parties txns)
      = map (customerList_balance add txns) parties"
    by (simp add: allPartyBalances_def customerList_balance_def partyBalances_fold
        reportBalances_fold comp_def)
  have ordered: "customerList_balance add txns party
      = finalBalance (ledger_of_party add txns party)" if "sorted (map date txns)"
  proof -
    from that have "sorted (map date ?mine)" by (rule sorted_filter)
    then have "sort_key date ?mine = ?mine" by (rule sort_key_id_if_sorted)
    then show ?thesis
      by (simp add: customerList_balance_def ledger_of_party_def partyBalances_fold
          customerLedger_by_final)
  qed
  have total: "finalBalance (ledger_of_party (+) txns party)
      = (\<Sum>t\<leftarrow>?mine. signed_amount t)"
    by (simp add: ledger_of_party_def customerLedger_by_final foldl_exact_sum
        sum_list_sort_key)
  have exact: "customerList_balance (+) txns party
      = finalBalance (ledger_of_party (+) txns party)"
    unfolding total
    by (simp add: customerList_balance_def partyBalances_fold foldl_exact_sum)
  show ?thesis
    using same [of add] all ordered exact total
      handleAddKhataTransaction_sorted [of txns newTransaction]
    by simp
qed

text \<open>The additions of the examples, rounded.\<close>

lemma bitlen_small:
  "bitlen 1 = 1" "bitlen 3 = 2" "bitlen 4 = 3" "bitlen 9 = 4"
  by code_simp+

lemma ex_double_add:
  "double_add 0 (3602879701896397 / 36028797018963968) = 3602879701896397 / 36028797018963968"
  "double_add 0 (3602879701896397 / 18014398509481984) = 3602879701896397 / 18014398509481984"
  "double_add (3602879701896397 / 36028797018963968) (3602879701896397 / 18014398509481984)
     = 1351079888211149 / 4503599627370496"
  "double_add (1351079888211149 / 4503599627370496) (5404319552844595 / 18014398509481984)
     = 1351079888211149 / 2251799813685248"
  "double_add (3602879701896397 / 18014398509481984) (5404319552844595 / 18014398509481984)
     = 1 / 2"
  "double_add (1 / 2) (3602879701896397 / 36028797018963968)
     = 5404319552844595 / 9007199254740992"
  by (simp_all add: double_add_def round_double_def binade_def bitlen_small Let_def
      power_int_def power_divide)

lemma ex_double_add_int:
  "double_add 0 100 = 100" "double_add 100 (- 40) = 60"
proof -
  have "round_double (of_int 100) = of_int 100" "round_double (of_int 60) = of_int 60"
    by (rule round_double_small_int; simp)+
  then show "double_add 0 100 = 100" "double_add 100 (- 40) = 60"
    by (simp_all add: double_add_def)
qed

theorem balance_views_agree_witness:
  "sorted (map date [ex_debit, ex_credit])
   \<and> customerList_balance double_add [ex_debit, ex_credit] ex_party = 60
   \<and> report_balance double_add [ex_debit, ex_credit] ex_party = 60
   \<and> finalBalance (ledger_of_party double_add [ex_debit, ex_credit] ex_party) = 60"
proof -
  have ord: "sorted (map date [ex_debit, ex_credit])"
    by (simp add: ex_debit_def ex_credit_def)
  have mine: "filter (\<lambda>t. partyId t = party_id ex_party) [ex_debit, ex_credit]
      = [ex_debit, ex_credit]"
    by (simp add: ex_debit_def ex_credit_def ex_party_def)
  have srt: "sort_key date [ex_debit, ex_credit] = [ex_debit, ex_credit]"
    using ord by (rule sort_key_id_if_sorted)
  have amt: "signed_amount ex_debit = 100" "signed_amount ex_credit = - 40"
    by (simp_all add: signed_amount_def ex_debit_def ex_credit_def)
  have led: "finalBalance (ledger_of_party double_add [ex_debit, ex_credit] ex_party) = 60"
    unfolding ledger_of_party_def mine customerLedger_by_final srt
    by (simp add: amt ex_double_add_int)
  note t = balance_views_agree [of double_add "[ex_debit, ex_credit]" ex_party "[]" ex_debit]
  from t ord have "customerList_balance double_add [ex_debit, ex_credit] ex_party
        = finalBalance (ledger_of_party double_add [ex_debit, ex_credit] ex_party)"
    and "report_balance double_add [ex_debit, ex_credit] ex_party
        = finalBalance (ledger_of_party double_add [ex_debit, ex_credit] ex_party)"
    by blast+
  with led ord show ?thesis by simp
qed

text \<open>
  C10 as stated fails on a list that is not in date order: the list and the reports
  add \<open>0.1\<close>, \<open>0.2\<close>, \<open>0.3\<close> in list order and get \<open>0.6000000000000001\<close>, the ledger adds
  \<open>0.2\<close>, \<open>0.3\<close>, \<open>0.1\<close> in date order and gets \<open>0.6\<close>.
\<close>

theorem unsorted_balance_counterexample:
  "customerList_balance double_add [ex_tenth, ex_fifth, ex_three_tenths] ex_party
     = 1351079888211149 / 2251799813685248
   \<and> report_balance double_add [ex_tenth, ex_fifth, ex_three_tenths] ex_party
     = 1351079888211149 / 2251799813685248
   \<and> finalBalance (ledger_of_party double_add [ex_tenth, ex_fifth, ex_three_tenths] ex_party)
     = 5404319552844595 / 9007199254740992
   \<and> customerList_balance double_add [ex_tenth, ex_fifth, ex_three_tenths] ex_party
     \<noteq> finalBalance (ledger_of_party double_add [ex_tenth, ex_fifth, ex_three_tenths] ex_party)"
proof -
  let ?ts = "[ex_tenth, ex_fifth, ex_three_tenths]"
  have mine: "filter (\<lambda>t. partyId t = party_id ex_party) ?ts = ?ts"
    by (simp add: ex_tenth_def ex_fifth_def ex_three_tenths_def ex_party_def)
  have srt: "sort_key date ?ts = [ex_fifth, ex_three_tenths, ex_tenth]"
    by (simp add: ex_tenth_def ex_fifth_def ex_three_tenths_def)
  have amt: "signed_amount ex_tenth = 3602879701896397 / 36028797018963968"
    "signed_amount ex_fifth = 3602879701896397 / 18014398509481984"
    "signed_amount ex_three_tenths = 5404319552844595 / 18014398509481984"
    by (simp_all add: signed_amount_def ex_tenth_def ex_fifth_def ex_three_tenths_def)
  have lst: "customerList_balance double_add ?ts ex_party = 1351079888211149 / 2251799813685248"
    unfolding customerList_balance_def partyBalances_fold mine
    by (simp only: foldl_Cons foldl_Nil amt ex_double_add)
  have rep: "report_balance double_add ?ts ex_party = 1351079888211149 / 2251799813685248"
    unfolding report_balance_def reportBalances_fold mine
    by (simp only: foldl_Cons foldl_Nil amt ex_double_add)
  have led: "finalBalance (ledger_of_party double_add ?ts ex_party)
      = 5404319552844595 / 9007199254740992"
    unfolding ledger_of_party_def mine customerLedger_by_final srt
    by (simp only: foldl_Cons foldl_Nil amt ex_double_add)
  have ne: "(1351079888211149 / 2251799813685248 :: real) \<noteq> 5404319552844595 / 9007199254740992"
    by simp
  show ?thesis unfolding lst rep led using ne by simp
qed

section \<open>Line-item validation\<close>

lemma handleSubmit_reject:
  assumes "trim (f_description f) = [] \<or> pf (f_grossWeight f) = None
      \<or> pf (f_netWeight f) = None \<or> pf (f_makingChargeValue f) = None
      \<or> (\<exists>g. pf (f_grossWeight f) = Some g \<and> g \<le> 0)
      \<or> (\<exists>n. pf (f_netWeight f) = Some n \<and> n \<le> 0)
      \<or> (\<exists>m. pf (f_makingChargeValue f) = Some m \<and> m < 0)
      \<or> (\<exists>g n. pf (f_grossWeight f) = Some g \<and> pf (f_netWeight f) = Some n \<and> g < n)"
  shows "\<exists>e. handleSubmit pf now f its = (f\<lparr> f_error := Some e \<rparr>, its)"
proof (cases "trim (f_description f) = [] \<or> isNaN (pf (f_grossWeight f))
      \<or> isNaN (pf (f_netWeight f)) \<or> isNaN (pf (f_makingChargeValue f))
      \<or> js_le (pf (f_grossWeight f)) (Some 0) \<or> js_le (pf (f_netWeight f)) (Some 0)
      \<or> js_lt (pf (f_makingChargeValue f)) (Some 0)")
  case True
  then have "handleSubmit pf now f its = (f\<lparr> f_error := Some please_fill_valid_values \<rparr>, its)"
    by (simp add: handleSubmit_def Let_def)
  then show ?thesis by blast
next
  case False
  then obtain g n m where v: "pf (f_grossWeight f) = Some g" "pf (f_netWeight f) = Some n"
      "pf (f_makingChargeValue f) = Some m"
    by (auto simp: isNaN_def)
  from False v have pos: "trim (f_description f) \<noteq> []" "0 < g" "0 < n" "0 \<le> m"
    by (auto simp: isNaN_def)
  with assms v have "g < n" by auto
  with False v have "handleSubmit pf now f its = (f\<lparr> f_error := Some net_weight_error \<rparr>, its)"
    by (simp add: handleSubmit_def Let_def isNaN_def)
  then show ?thesis by blast
qed

lemma handleSubmit_accept:
  assumes "trim (f_description f) \<noteq> []"
    and "pf (f_grossWeight f) = Some g" "pf (f_netWeight f) = Some n"
    and "pf (f_makingChargeValue f) = Some m"
    and "0 < g" "0 < n" "0 \<le> m" "n \<le> g"
  shows "handleSubmit pf now f its =
    (f\<lparr> f_error := None, f_description := [], f_grossWeight := [], f_netWeight := [],
        f_makingChargeValue := [], f_applyGst := True \<rparr>,
     its @ [\<lparr> item_id = now, description = f_description f, metal = f_metal f,
              grossWeight = g, netWeight = n, makingChargeType = f_makingChargeType f,
              makingChargeValue = m, applyGst = f_applyGst f \<rparr>])"
  using assms by (simp add: handleSubmit_def Let_def isNaN_def handleAddItem_def)

text \<open>
  C6 (as amended). \<open>handleSubmit\<close> signals an error and leaves the item list as it was
  exactly when the description is empty or made of white space and line terminators
  only (empty once trimmed), one of
  gross weight, net weight and making-charge value parses to \<open>NaN\<close>, a weight is not
  positive, the making-charge value is negative, or the net weight exceeds the gross
  weight. On rejection only the error of the form changes and no item is added, so a
  line with net weight above gross weight is rejected whatever its other fields. In
  every other case the error is cleared and exactly one item, with the parsed values
  and valid, is appended.
\<close>

theorem handleSubmit_validation:
  "(let gw = pf (f_grossWeight f); nw = pf (f_netWeight f);
        mcv = pf (f_makingChargeValue f);
        invalid = (trim (f_description f) = [] \<or> gw = None \<or> nw = None \<or> mcv = None
          \<or> (\<exists>g. gw = Some g \<and> g \<le> 0) \<or> (\<exists>n. nw = Some n \<and> n \<le> 0)
          \<or> (\<exists>m. mcv = Some m \<and> m < 0)
          \<or> (\<exists>g n. gw = Some g \<and> nw = Some n \<and> g < n));
        f' = fst (handleSubmit pf now f its);
        its' = snd (handleSubmit pf now f its)
    in (f_error f' \<noteq> None) = invalid
       \<and> (its' = its) = invalid
       \<and> (invalid \<longrightarrow> f' = f\<lparr> f_error := f_error f' \<rparr>)
       \<and> (\<not> invalid \<longrightarrow>
            its' = its @ [\<lparr> item_id = now, description = f_description f, metal = f_metal f,
                           grossWeight = num_value gw, netWeight = num_value nw,
                           makingChargeType = f_makingChargeType f,
                           makingChargeValue = num_value mcv, applyGst = f_applyGst f \<rparr>]
            \<and> valid_item (last its')))"
proof -
  let ?gw = "pf (f_grossWeight f)" and ?nw = "pf (f_netWeight f)"
  let ?mcv = "pf (f_makingChargeValue f)"
  let ?invalid = "trim (f_description f) = [] \<or> ?gw = None \<or> ?nw = None \<or> ?mcv = None
          \<or> (\<exists>g. ?gw = Some g \<and> g \<le> 0) \<or> (\<exists>n. ?nw = Some n \<and> n \<le> 0)
          \<or> (\<exists>m. ?mcv = Some m \<and> m < 0)
          \<or> (\<exists>g n. ?gw = Some g \<and> ?nw = Some n \<and> g < n)"
  let ?res = "handleSubmit pf now f its"
  show ?thesis
  proof (cases ?invalid)
    case True
    from handleSubmit_reject [OF True, of now its]
    obtain e where "?res = (f\<lparr> f_error := Some e \<rparr>, its)" by blast
    with True show ?thesis unfolding Let_def by simp
  next
    case False
    then obtain g n m where v: "?gw = Some g" "?nw = Some n" "?mcv = Some m"
      by auto
    from False v have ok: "trim (f_description f) \<noteq> []" "0 < g" "0 < n" "0 \<le> m" "n \<le> g"
      by (auto simp: not_le not_less)
    from handleSubmit_accept [OF ok(1) v ok(2-5), of now its] False v ok
    show ?thesis unfolding Let_def by (simp add: valid_item_def)
  qed
qed

text \<open>The digit strings of the sample forms.\<close>

lemma ex_parse:
  "parseFloat_digits ''10'' = Some 10" "parseFloat_digits ''5'' = Some 5"
  "parseFloat_digits ''0'' = Some 0" "parseFloat_digits ''12'' = Some 12"
  "parseFloat_digits [] = None"
  by (simp_all add: parseFloat_digits_def digit_of_def)

theorem handleSubmit_validation_witness:
  "handleSubmit parseFloat_digits ''2024-01-01T00:00:00.000Z'' ex_heavy_form [ex_ring]
     = (ex_heavy_form\<lparr> f_error := Some net_weight_error \<rparr>, [ex_ring])
   \<and> snd (handleSubmit parseFloat_digits ''2024-01-02T00:00:00.000Z'' ex_form [ex_ring])
     = [ex_ring, \<lparr> item_id = ''2024-01-02T00:00:00.000Z'',
                   description = [0x52, 0x69, 0x6E, 0x67],
                   metal = GOLD, grossWeight = 10, netWeight = 5,
                   makingChargeType = PER_GRAM, makingChargeValue = 0, applyGst = False \<rparr>]
   \<and> f_error (fst (handleSubmit parseFloat_digits ''2024-01-02T00:00:00.000Z'' ex_form [ex_ring]))
     = None"
proof -
  have heavy: "f_description ex_heavy_form = [0x52, 0x69, 0x6E, 0x67]"
    "f_grossWeight ex_heavy_form = ''10''"
    "f_netWeight ex_heavy_form = ''12''" "f_makingChargeValue ex_heavy_form = ''0''"
    by (simp_all add: ex_heavy_form_def ex_form_def)
  have good: "f_description ex_form = [0x52, 0x69, 0x6E, 0x67]"
    "f_grossWeight ex_form = ''10''"
    "f_netWeight ex_form = ''5''" "f_makingChargeValue ex_form = ''0''"
    "f_metal ex_form = GOLD" "f_makingChargeType ex_form = PER_GRAM"
    "f_applyGst ex_form = False"
    by (simp_all add: ex_form_def)
  have tr: "trim [0x52, 0x69, 0x6E, 0x67] = [0x52, 0x69, 0x6E, 0x67]"
    by (simp add: trim_def js_whitespace_def)
  note a = handleSubmit_validation [of parseFloat_digits ex_heavy_form
      "''2024-01-01T00:00:00.000Z''" "[ex_ring]", unfolded Let_def heavy ex_parse tr]
  note b = handleSubmit_validation [of parseFloat_digits ex_form
      "''2024-01-02T00:00:00.000Z''" "[ex_ring]", unfolded Let_def good ex_parse tr]
  have 1: "handleSubmit parseFloat_digits ''2024-01-01T00:00:00.000Z'' ex_heavy_form [ex_ring]
     = (ex_heavy_form\<lparr> f_error := Some net_weight_error \<rparr>, [ex_ring])"
    by (simp add: handleSubmit_def heavy ex_parse tr isNaN_def)
  from a b 1 show ?thesis by simp
qed

text \<open>
  C6 as stated fails for a description that is not empty but blank: with good
  weights and charge, the form whose description is one space is rejected, and so is
  the form whose description is one no-break space.
\<close>

theorem blank_description_counterexample:
  "f_description ex_blank_form \<noteq> []
   \<and> parseFloat_digits (f_grossWeight ex_blank_form) = Some 10
   \<and> parseFloat_digits (f_netWeight ex_blank_form) = Some 5
   \<and> parseFloat_digits (f_makingChargeValue ex_blank_form) = Some 0
   \<and> handleSubmit parseFloat_digits ''2024-01-01T00:00:00.000Z'' ex_blank_form [ex_ring]
       = (ex_blank_form\<lparr> f_error := Some please_fill_valid_values \<rparr>, [ex_ring])
   \<and> f_description ex_nbsp_form \<noteq> []
   \<and> handleSubmit parseFloat_digits ''2024-01-01T00:00:00.000Z'' ex_nbsp_form [ex_ring]
       = (ex_nbsp_form\<lparr> f_error := Some please_fill_valid_values \<rparr>, [ex_ring])"
proof -
  have blank: "f_description ex_blank_form = [0x20]" "f_grossWeight ex_blank_form = ''10''"
    "f_netWeight ex_blank_form = ''5''" "f_makingChargeValue ex_blank_form = ''0''"
    by (simp_all add: ex_blank_form_def ex_form_def)
  have nbsp: "f_description ex_nbsp_form = [0xA0]" "f_grossWeight ex_nbsp_form = ''10''"
    "f_netWeight ex_nbsp_form = ''5''" "f_makingChargeValue ex_nbsp_form = ''0''"
    by (simp_all add: ex_nbsp_form_def ex_form_def)
  have tr: "trim [0x20] = []" "trim [0xA0] = []"
    by (simp_all add: trim_def js_whitespace_def)
  have b: "handleSubmit parseFloat_digits ''2024-01-01T00:00:00.000Z'' ex_blank_form [ex_ring]
       = (ex_blank_form\<lparr> f_error := Some please_fill_valid_values \<rparr>, [ex_ring])"
    by (simp add: handleSubmit_def blank ex_parse tr)
  have n: "handleSubmit parseFloat_digits ''2024-01-01T00:00:00.000Z'' ex_nbsp_form [ex_ring]
       = (ex_nbsp_form\<lparr> f_error := Some please_fill_valid_values \<rparr>, [ex_ring])"
    by (simp add: handleSubmit_def nbsp ex_parse tr)
  show ?thesis
    using b n by (simp add: blank nbsp ex_parse)
qed

section \<open>Adding a party\<close>

text \<open>
  C7. When some party of the list already has the phone number of the request, the
  party list is returned as it was and the duplicate is reported on the console;
  otherwise exactly one party, with the request's name, phone and type and the phone
  number as its identifier, is appended and nothing is reported. On a party list in
  which every party's identifier is its phone number (as \<open>handleAddParty\<close> builds it),
  having that phone number is being identified by it, and the resulting list again
  identifies every party by its phone number.
\<close>

theorem handleAddParty_duplicate:
  "((\<exists>p\<in>set parties. party_phone p = in_phone party) \<longrightarrow>
      handleAddParty (parties, console) party
        = (parties, console @ [''A party with this phone number already exists.'']))
   \<and> (\<not> (\<exists>p\<in>set parties. party_phone p = in_phone party) \<longrightarrow>
      handleAddParty (parties, console) party
        = (parties @ [\<lparr> party_id = in_phone party, party_name = in_name party,
                         party_phone = in_phone party, party_type = in_type party \<rparr>],
           console))
   \<and> ((\<forall>p\<in>set parties. party_id p = party_phone p) \<longrightarrow>
        ((\<exists>p\<in>set parties. party_id p = in_phone party)
           = (\<exists>p\<in>set parties. party_phone p = in_phone party))
        \<and> (\<forall>p\<in>set (fst (handleAddParty (parties, console) party)).
              party_id p = party_phone p))"
proof -
  let ?dup = "\<exists>p\<in>set parties. party_phone p = in_phone party"
  let ?new = "\<lparr> party_id = in_phone party, party_name = in_name party,
                party_phone = in_phone party, party_type = in_type party \<rparr>"
  have same: "list_ex (\<lambda>p. party_phone p = in_phone party) parties = ?dup"
    by (simp only: list_ex_iff)
  have d: "handleAddParty (parties, console) party
      = (parties, console @ [''A party with this phone number already exists.''])" if ?dup
  proof -
    from that same have "list_ex (\<lambda>p. party_phone p = in_phone party) parties" by blast
    then show ?thesis by (simp only: handleAddParty_def prod.case if_True)
  qed
  have n: "handleAddParty (parties, console) party = (parties @ [?new], console)" if "\<not> ?dup"
  proof -
    from that same have "\<not> list_ex (\<lambda>p. party_phone p = in_phone party) parties" by blast
    then show ?thesis by (simp only: handleAddParty_def prod.case if_False)
  qed
  have ids: "(\<exists>p\<in>set parties. party_id p = in_phone party) = ?dup"
    if "\<forall>p\<in>set parties. party_id p = party_phone p"
    using that by auto
  have i: "\<forall>p\<in>set (fst (handleAddParty (parties, console) party)). party_id p = party_phone p"
    if inv: "\<forall>p\<in>set parties. party_id p = party_phone p"
  proof (cases ?dup)
    case True
    then show ?thesis using inv by (simp only: d fst_conv)
  next
    case False
    have "party_id ?new = party_phone ?new" by simp
    then show ?thesis using inv by (simp only: n [OF False] fst_conv set_append) auto
  qed
  from d n ids i show ?thesis by blast
qed

theorem handleAddParty_duplicate_witness:
  "party_id ex_party = party_phone ex_party
   \<and> handleAddParty ([ex_party], [])
        \<lparr> in_name = ''Asha again'', in_phone = ''9000000001'', in_type = SUPPLIER \<rparr>
       = ([ex_party], [''A party with this phone number already exists.''])
   \<and> handleAddParty ([ex_party], [])
        \<lparr> in_name = ''Ravi'', in_phone = ''9000000002'', in_type = SUPPLIER \<rparr>
       = ([ex_party, \<lparr> party_id = ''9000000002'', party_name = ''Ravi'',
                       party_phone = ''9000000002'', party_type = SUPPLIER \<rparr>], [])"
proof -
  let ?again = "\<lparr> in_name = ''Asha again'', in_phone = ''9000000001'', in_type = SUPPLIER \<rparr>"
  let ?ravi = "\<lparr> in_name = ''Ravi'', in_phone = ''9000000002'', in_type = SUPPLIER \<rparr>"
  have idp: "party_id ex_party = ''9000000001''" "party_phone ex_party = ''9000000001''"
    by (simp_all add: ex_party_def)
  have same: "party_id ex_party = party_phone ex_party"
    by (simp only: idp)
  have dup: "\<exists>p\<in>set [ex_party]. party_phone p = in_phone ?again"
    by (simp add: idp)
  have fresh: "\<not> (\<exists>p\<in>set [ex_party]. party_phone p = in_phone ?ravi)"
    by (simp add: idp)
  note a = handleAddParty_duplicate [of "[ex_party]" ?again "[]", THEN conjunct1, THEN mp,
      OF dup]
  note b = handleAddParty_duplicate [of "[ex_party]" ?ravi "[]", THEN conjunct2,
      THEN conjunct1, THEN mp, OF fresh]
  have a': "handleAddParty ([ex_party], []) ?again
       = ([ex_party], [''A party with this phone number already exists.''])"
    using a by (simp only: append_Nil)
  have b': "handleAddParty ([ex_party], []) ?ravi
       = ([ex_party, \<lparr> party_id = ''9000000002'', party_name = ''Ravi'',
                       party_phone = ''9000000002'', party_type = SUPPLIER \<rparr>], [])"
    using b by (simp only: append_Cons append_Nil PartyInput.simps)
  from same a' b' show ?thesis by (intro conjI)
qed

section \<open>Clearing the invoice\<close>

text \<open>
  C8 (as amended). After \<open>handleClear\<close> (which runs \<open>handleClearInvoice\<close> and resets the
  discount inputs) the item list is empty, the customer's name and phone are blank,
  the invoice number is the previous one and \<open>1\<close> added as doubles, which is exactly
  the previous number plus \<open>1\<close> whenever that number is an integer from \<open>0\<close> below
  \<open>2 ^ 53\<close>; the discount type is \<open>PERCENT\<close> and the discount text is empty, which reads
  as the value \<open>0\<close> since \<open>parseFloat\<close> of the empty string is \<open>NaN\<close>; the tax rate is
  kept. On a session that already has no items, a blank customer and the default
  discount, only the invoice number changes.
\<close>

theorem handleClear_resets:
  "items (handleClear s) = []
   \<and> customer (handleClear s) = \<lparr> name = [], phone = [] \<rparr>
   \<and> invoiceNumber (handleClear s) = double_add (invoiceNumber s) 1
   \<and> (invoiceNumber s \<in> \<int> \<and> 0 \<le> invoiceNumber s \<and> invoiceNumber s < 2 ^ 53
        \<longrightarrow> invoiceNumber (handleClear s) = invoiceNumber s + 1)
   \<and> discountType (handleClear s) = PERCENT
   \<and> discountValue (handleClear s) = []
   \<and> (pf [] = None \<longrightarrow> numericDiscountValue pf (discountValue (handleClear s)) = 0)
   \<and> gstRate (handleClear s) = gstRate s
   \<and> (items s = [] \<and> customer s = \<lparr> name = [], phone = [] \<rparr>
        \<and> discountType s = PERCENT \<and> discountValue s = []
       \<longrightarrow> handleClear s = s\<lparr> invoiceNumber := invoiceNumber (handleClear s) \<rparr>)"
proof -
  have n: "invoiceNumber (handleClear s) = double_add (invoiceNumber s) 1"
    by (simp add: handleClear_def handleClearInvoice_def)
  have exact: "invoiceNumber (handleClear s) = invoiceNumber s + 1"
    if "invoiceNumber s \<in> \<int>" "0 \<le> invoiceNumber s" "invoiceNumber s < 2 ^ 53"
    unfolding n using that by (rule double_add_one_exact)
  have rest: "items (handleClear s) = []"
    "customer (handleClear s) = \<lparr> name = [], phone = [] \<rparr>"
    "discountType (handleClear s) = PERCENT" "discountValue (handleClear s) = []"
    "gstRate (handleClear s) = gstRate s"
    by (simp_all add: handleClear_def handleClearInvoice_def)
  have num: "numericDiscountValue pf (discountValue (handleClear s)) = 0" if "pf [] = None"
    using that by (simp add: rest numericDiscountValue_def)
  have idem: "handleClear s = s\<lparr> invoiceNumber := invoiceNumber (handleClear s) \<rparr>"
    if "items s = []" "customer s = \<lparr> name = [], phone = [] \<rparr>"
       "discountType s = PERCENT" "discountValue s = []"
    using that by (simp add: handleClear_def handleClearInvoice_def)
  from n exact rest num idem show ?thesis by blast
qed

theorem handleClear_resets_witness:
  "parseFloat_digits [] = None
   \<and> invoiceNumber ex_session = 7
   \<and> handleClear ex_session = ex_empty_session\<lparr> invoiceNumber := 8 \<rparr>
   \<and> numericDiscountValue parseFloat_digits (discountValue (handleClear ex_session)) = 0
   \<and> items ex_empty_session = [] \<and> customer ex_empty_session = \<lparr> name = [], phone = [] \<rparr>
   \<and> discountType ex_empty_session = PERCENT \<and> discountValue ex_empty_session = []
   \<and> handleClear ex_empty_session = ex_empty_session\<lparr> invoiceNumber := 8 \<rparr>"
proof -
  have p: "parseFloat_digits [] = None" by (simp add: parseFloat_digits_def)
  have e: "items ex_empty_session = []" "customer ex_empty_session = \<lparr> name = [], phone = [] \<rparr>"
     "discountType ex_empty_session = PERCENT" "discountValue ex_empty_session = []"
    and e7: "invoiceNumber ex_empty_session = 7"
    by (simp_all add: ex_empty_session_def)
  have s7: "invoiceNumber ex_session = 7" by (simp add: ex_session_def)
  have small: "(7::real) \<in> \<int> \<and> (0::real) \<le> 7 \<and> (7::real) < 2 ^ 53" by simp
  note a = handleClear_resets [of ex_session parseFloat_digits, unfolded s7]
  note b = handleClear_resets [of ex_empty_session parseFloat_digits, unfolded e7]
  from a small have na: "invoiceNumber (handleClear ex_session) = 8" by simp
  from b small have nb: "invoiceNumber (handleClear ex_empty_session) = 8" by simp
  from b e have ib: "handleClear ex_empty_session
      = ex_empty_session\<lparr> invoiceNumber := invoiceNumber (handleClear ex_empty_session) \<rparr>"
    by blast
  have sa: "handleClear ex_session
      = ex_empty_session\<lparr> invoiceNumber := invoiceNumber (handleClear ex_session) \<rparr>"
    by (simp add: handleClear_def handleClearInvoice_def ex_session_def ex_empty_session_def)
  from a p have da: "numericDiscountValue parseFloat_digits (discountValue (handleClear ex_session)) = 0"
    by blast
  show ?thesis
    using p s7 e da sa ib unfolding na nb by (intro conjI)
qed

text \<open>
  C8 as stated fails from \<open>2 ^ 53\<close> on: \<open>handleInvoiceNumberChange\<close> stores
  \<open>9007199254740992\<close>, and clearing the invoice leaves that invoice number as it is.
\<close>

theorem invoice_number_2_53_counterexample:
  "invoiceNumber (handleInvoiceNumberChange (Some 9007199254740992) ex_session)
     = 9007199254740992
   \<and> invoiceNumber (handleClear (handleInvoiceNumberChange (Some 9007199254740992) ex_session))
     = 9007199254740992"
  by (simp add: handleInvoiceNumberChange_def isNaN_def handleClear_def handleClearInvoice_def
      double_add_one_lost)

section \<open>Byajbook navigation: a missing loan\<close>

text \<open>
  C9. In the \<open>DETAILS\<close> view, when no loan of the list has the selected identifier,
  \<open>Byajbook\<close> renders \<open>null\<close>; so selecting, from the list view, an identifier that no
  loan has leads to a \<open>DETAILS\<close> view that renders \<open>null\<close>. In the \<open>DETAILS\<close> view
  \<open>null\<close> is rendered only in that case.
\<close>

theorem Byajbook_missing_loan_renders_null:
  "(view s = DETAILS \<and> (\<forall>l\<in>set loans. Some (loan_id l) \<noteq> selectedLoanId s)
      \<longrightarrow> Byajbook loans s = RenderNull)
   \<and> (view s = LIST \<and> (\<forall>l\<in>set loans. loan_id l \<noteq> loanId)
      \<longrightarrow> view (onSelectLoan loanId s) = DETAILS
          \<and> Byajbook loans (onSelectLoan loanId s) = RenderNull)
   \<and> (view s = DETAILS \<longrightarrow>
        (Byajbook loans s = RenderNull)
          = (\<forall>l\<in>set loans. Some (loan_id l) \<noteq> selectedLoanId s))"
proof -
  have none: "selectedLoan loans sel = None \<longleftrightarrow> (\<forall>l\<in>set loans. Some (loan_id l) \<noteq> sel)"
    for sel
    by (auto simp: selectedLoan_def find_None_iff)
  have details: "(Byajbook loans t = RenderNull) = (selectedLoan loans (selectedLoanId t) = None)"
    if "view t = DETAILS" for t
    using that by (simp add: Byajbook_def split: option.split)
  have sel: "view (onSelectLoan loanId s) = DETAILS"
    "selectedLoanId (onSelectLoan loanId s) = Some loanId"
    by (simp_all add: onSelectLoan_def)
  show ?thesis
    using details [of s] details [OF sel(1)] none [of "selectedLoanId s"]
      none [of "Some loanId"] sel
    by auto
qed

theorem Byajbook_missing_loan_renders_null_witness:
  "view (onSelectLoan ''L2'' initialByajbook) = DETAILS
   \<and> loan_id ex_loan = ''L1''
   \<and> Byajbook [ex_loan] (onSelectLoan ''L2'' initialByajbook) = RenderNull
   \<and> Byajbook [ex_loan] (onSelectLoan ''L1'' initialByajbook) = LoanDetails ex_loan
   \<and> Byajbook [] \<lparr> view = DETAILS, selectedLoanId = None \<rparr> = RenderNull"
proof -
  have i: "view initialByajbook = LIST" by (simp add: initialByajbook_def)
  have l: "loan_id ex_loan = ''L1''" by (simp add: ex_loan_def)
  have found: "Byajbook [ex_loan] (onSelectLoan ''L1'' initialByajbook) = LoanDetails ex_loan"
    by (simp add: Byajbook_def onSelectLoan_def selectedLoan_def l)
  from Byajbook_missing_loan_renders_null [of initialByajbook "[ex_loan]" "''L2''"]
    Byajbook_missing_loan_renders_null [of "\<lparr> view = DETAILS, selectedLoanId = None \<rparr>" "[]"]
    i l found
  show ?thesis by simp
qed

end
